theory Spec2Isabelle
  imports Main "HOL-Library.Extended_Nat" "HOL-Library.Monad_Syntax"
begin

section \<open>The delete subtag (src/tags/delete.js)\<close>

subsection \<open>Data\<close>

type_synonym snowflake = string

text \<open>The call node a handler is invoked for; handlers only pass it on to the error helpers.\<close>

type_synonym subtag = string

record message =
  msg_id :: snowflake
  msg_channel_id :: snowflake

record channel =
  channel_id :: snowflake

record guild =
  guild_id :: snowflake

text \<open>
  The part of the execution context that \<^verbatim>\<open>delete.js\<close> reads: \<^verbatim>\<open>context.channel\<close>,
  \<^verbatim>\<open>context.msg\<close>, \<^verbatim>\<open>context.guild\<close>, the awaited value of \<^verbatim>\<open>context.isStaff\<close>,
  the method \<^verbatim>\<open>context.ownsMessage\<close> and \<^verbatim>\<open>context.scope.suppressLookup\<close>. The class is not
  among the sources, so \<open>isStaff\<close> and \<open>ownsMessage\<close> are parameters.
\<close>

record bbtag_context =
  ctx_channel :: channel
  ctx_msg :: message
  ctx_guild :: guild
  isStaff :: bool
  ownsMessage :: "snowflake \<Rightarrow> bool"
  suppressLookup :: bool

datatype host_error = NotFound | TransportError

text \<open>
  The capabilities the handler calls. \<open>util_parseChannel\<close> is
  \<^verbatim>\<open>Builder.util.parseChannel(context, channelId, {quiet: true, suppress})\<close>, a null result being
  \<open>None\<close>. \<open>bot_getMessage\<close> and \<open>bot_deleteMessage\<close> are the platform's calls; a rejected
  promise is \<open>Inl\<close>. A resolved \<^verbatim>\<open>getMessage\<close> may still be falsy, which the source tests with
  \<^verbatim>\<open>if (msg)\<close>: that is \<open>Inr None\<close>.
\<close>

record host =
  util_parseChannel :: "bbtag_context \<Rightarrow> string \<Rightarrow> bool \<Rightarrow> channel option"
  bot_getMessage :: "snowflake \<Rightarrow> snowflake \<Rightarrow> host_error + message option"
  bot_deleteMessage :: "snowflake \<Rightarrow> snowflake \<Rightarrow> host_error + unit"

text \<open>
  What a run leaves behind: the process-wide map \<^verbatim>\<open>bu.notCommandMessages\<close> (guild id, then
  message id), and the sequence of effects in the order the handler performs them.
\<close>

datatype effect =
    GetMessage snowflake snowflake
  | MarkNotCommand snowflake snowflake
  | DeleteMessage snowflake snowflake

record world =
  notCommandMessages :: "snowflake \<rightharpoonup> (snowflake \<rightharpoonup> bool)"
  effects :: "effect list"

text \<open>
  Modelled from the spec: the diagnostics of \<^verbatim>\<open>Builder.errors\<close> and \<^verbatim>\<open>Builder.util.error\<close>
  (TagBuilder is not among the sources). Section 7 of the spec names an arity error, produced
  by a subtag's default handler, and a handler's own business-rule failure; both are non-fatal
  and rendered in-band. A handler's result is rendered text, no output, such a structured
  error tagged with the originating call, or the fatal abort signal (section 4.3, step 6).
\<close>

datatype diagnostic =
    TooManyArguments
  | NoChannelFound
  | NoMessageFound
  | RuntimeError string

datatype result =
    NoOutput
  | Text string
  | Error subtag diagnostic
  | Abort

text \<open>
  Modelled from the spec: \<^verbatim>\<open>Builder.util.error(subtag, context, message)\<close> and the members
  \<^verbatim>\<open>noChannelFound\<close>, \<^verbatim>\<open>noMessageFound\<close> and \<^verbatim>\<open>tooManyArguments\<close> of \<^verbatim>\<open>Builder.errors\<close>, each
  returning the structured error for the call it is given.
\<close>

definition util_error :: "subtag \<Rightarrow> bbtag_context \<Rightarrow> string \<Rightarrow> result" where
  "util_error subtag context message = Error subtag (RuntimeError message)"

definition noChannelFound :: "subtag \<Rightarrow> bbtag_context \<Rightarrow> result" where
  "noChannelFound subtag context = Error subtag NoChannelFound"

definition noMessageFound :: "subtag \<Rightarrow> bbtag_context \<Rightarrow> result" where
  "noMessageFound subtag context = Error subtag NoMessageFound"

definition tooManyArguments :: "subtag \<Rightarrow> bbtag_context \<Rightarrow> result" where
  "tooManyArguments subtag context = Error subtag TooManyArguments"

subsection \<open>The shared property deleteMessage\<close>

text \<open>
  The three statements that set \<^verbatim>\<open>bu.notCommandMessages[guildId][messageId] = true\<close>, creating
  the guild's entry when it is missing.
\<close>

definition setNotCommand :: "snowflake \<Rightarrow> snowflake \<Rightarrow> world \<Rightarrow> world" where
  "setNotCommand guildId messageId w =
     (let inner = (case notCommandMessages w guildId of None \<Rightarrow> Map.empty | Some m \<Rightarrow> m)
      in w\<lparr>notCommandMessages := (notCommandMessages w)(guildId \<mapsto> inner(messageId \<mapsto> True)),
            effects := effects w @ [MarkNotCommand guildId messageId]\<rparr>)"

definition deleteMessage ::
  "host \<Rightarrow> subtag \<Rightarrow> bbtag_context \<Rightarrow> string \<Rightarrow> string \<Rightarrow> world \<Rightarrow> world \<times> result" where
  "deleteMessage platform subtag context channelId messageId w =
     (if \<not> (isStaff context \<or> ownsMessage context messageId)
      then (w, util_error subtag context ''Author must be staff to delete unrelated messages'')
      else
        (case util_parseChannel platform context channelId (suppressLookup context) of
           None \<Rightarrow> (w, noChannelFound subtag context)
         | Some channel \<Rightarrow>
             (let fetched =
                    (if msg_id (ctx_msg context) \<noteq> messageId
                     then (w\<lparr>effects := effects w @ [GetMessage (channel_id channel) messageId]\<rparr>,
                           bot_getMessage platform (channel_id channel) messageId)
                     else (w, Inr (Some (ctx_msg context))))
              in (case fetched of
                    (w1, Inl err) \<Rightarrow> (w1, noMessageFound subtag context)
                  | (w1, Inr msg) \<Rightarrow>
                      (let w2 = setNotCommand (guild_id (ctx_guild context)) (msg_id (ctx_msg context)) w1
                       in (case msg of
                             None \<Rightarrow> (w2, NoOutput)
                           | Some m \<Rightarrow>
                               (let w3 = w2\<lparr>effects := effects w2 @ [DeleteMessage (msg_channel_id m) (msg_id m)]\<rparr>
                                in (case bot_deleteMessage platform (msg_channel_id m) (msg_id m) of
                                      Inl e \<Rightarrow> (w3, NoOutput)
                                    | Inr u \<Rightarrow> (w3, NoOutput)))))))))"

subsection \<open>The definition and its arity dispatch\<close>

type_synonym handler = "host \<Rightarrow> subtag \<Rightarrow> bbtag_context \<Rightarrow> string list \<Rightarrow> world \<Rightarrow> world \<times> result"

text \<open>
  Modelled from the spec: the definition record and the arity dispatch of TagBuilder, which is
  not among the sources. Section 4.2: a definition's arity handlers are selected by exact
  argument count first; if no exact match exists, the designated default handler runs.
  Section 9: a mapping from exact argument count to handler, and a default handler.
\<close>

record subtag_definition =
  tag_name :: string
  whenArgs :: "(nat \<times> handler) list"
  whenDefault :: handler

definition select_handler :: "subtag_definition \<Rightarrow> nat \<Rightarrow> handler" where
  "select_handler d n = (case map_of (whenArgs d) n of Some h \<Rightarrow> h | None \<Rightarrow> whenDefault d)"

definition execute ::
  "subtag_definition \<Rightarrow> host \<Rightarrow> subtag \<Rightarrow> bbtag_context \<Rightarrow> string list \<Rightarrow> world \<Rightarrow> world \<times> result" where
  "execute d platform subtag context args w = select_handler d (length args) platform subtag context args w"

text \<open>
  The definition built in \<^verbatim>\<open>delete.js\<close>. Each handler is reached only with the argument count
  it is registered for, so \<open>args ! 0\<close> and \<open>args ! 1\<close> are read in range.
\<close>

definition delete_tag :: subtag_definition where
  "delete_tag =
     \<lparr>tag_name = ''delete'',
      whenArgs =
        [(0, \<lambda>platform subtag context args.
               deleteMessage platform subtag context (channel_id (ctx_channel context)) (msg_id (ctx_msg context))),
         (1, \<lambda>platform subtag context args.
               deleteMessage platform subtag context (channel_id (ctx_channel context)) (args ! 0)),
         (2, \<lambda>platform subtag context args.
               deleteMessage platform subtag context (args ! 0) (args ! 1))],
      whenDefault = (\<lambda>platform subtag context args w. (w, tooManyArguments subtag context))\<rparr>"

text \<open>
  Modelled from the spec: what the evaluator does with the results of a sequence of sibling
  calls (section 4.3, step 6, and section 7); the evaluator is not among the sources. Rendered
  text is appended to the output; a structured error is rendered as an inline token, logged,
  and evaluation goes on with the next sibling; the abort signal ends the invocation at once.
  The rendering of the token is a parameter. The resource counters of the evaluator are left
  out: no handler result changes them.
\<close>

record evaluation =
  ev_output :: string
  ev_errors :: "(subtag \<times> diagnostic) list"
  ev_aborted :: bool

fun evaluate_siblings ::
  "(diagnostic \<Rightarrow> string) \<Rightarrow> (world \<Rightarrow> world \<times> result) list \<Rightarrow> world \<Rightarrow> evaluation \<Rightarrow> world \<times> evaluation" where
  "evaluate_siblings token [] w ev = (w, ev)"
| "evaluate_siblings token (call # calls) w ev =
     (case call w of
        (w', NoOutput) \<Rightarrow> evaluate_siblings token calls w' ev
      | (w', Text t) \<Rightarrow> evaluate_siblings token calls w' (ev\<lparr>ev_output := ev_output ev @ t\<rparr>)
      | (w', Error s d) \<Rightarrow>
          evaluate_siblings token calls w'
            (ev\<lparr>ev_output := ev_output ev @ token d, ev_errors := ev_errors ev @ [(s, d)]\<rparr>)
      | (w', Abort) \<Rightarrow> (w', ev\<lparr>ev_aborted := True\<rparr>))"

section \<open>Database (connect and retryConnect)\<close>

text \<open>
  What the database layer does, in the order it does it: a call of the \<^verbatim>\<open>connect\<close> closure
  passed to \<^verbatim>\<open>retryConnect\<close> (with the number of the attempt), the two logger calls, a sleep of
  so many milliseconds, a table's \<^verbatim>\<open>migrate()\<close> and a table's \<^verbatim>\<open>watchChanges()\<close>.
\<close>

datatype db_event =
    ConnectCall string nat
  | LoggerInit string nat
  | LoggerError string nat nat
  | Sleep nat
  | Migrate string
  | WatchChanges string

text \<open>How a promise settles.\<close>

datatype outcome = Resolved | Rejected

text \<open>
  The loop of \<^verbatim>\<open>retryConnect\<close>. \<open>connect k\<close> tells whether the \<open>k\<close>-th call of the closure resolves;
  a rejection is caught by the loop's \<^verbatim>\<open>catch\<close>. \<open>attempt\<close> is the counter before the test
  \<^verbatim>\<open>attempt++ < maxAttempts\<close>, so the body runs with \<open>attempt + 1\<close>. \<open>maxAttempts\<close> defaults to
  \<^verbatim>\<open>Infinity\<close> in the source, hence \<open>enat\<close>; with it the loop need not end, and not returning is
  the value \<open>None\<close>. The logger and \<^verbatim>\<open>sleep\<close> do not throw.
\<close>

partial_function (option) retryConnect_from ::
  "string \<Rightarrow> (nat \<Rightarrow> bool) \<Rightarrow> nat \<Rightarrow> enat \<Rightarrow> nat \<Rightarrow> db_event list \<Rightarrow> (db_event list \<times> outcome) option" where
  "retryConnect_from dbName connect intervalMs maxAttempts attempt tr =
     (if enat attempt < maxAttempts
      then (if connect (attempt + 1)
            then Some (tr @ [ConnectCall dbName (attempt + 1), LoggerInit dbName (attempt + 1)], Resolved)
            else retryConnect_from dbName connect intervalMs maxAttempts (attempt + 1)
                   (tr @ [ConnectCall dbName (attempt + 1), LoggerError dbName (attempt + 1) intervalMs,
                          Sleep intervalMs]))
      else Some (tr, Resolved))"

definition retryConnect ::
  "string \<Rightarrow> (nat \<Rightarrow> bool) \<Rightarrow> nat \<Rightarrow> enat \<Rightarrow> db_event list \<Rightarrow> (db_event list \<times> outcome) option" where
  "retryConnect dbName connect intervalMs maxAttempts tr =
     retryConnect_from dbName connect intervalMs maxAttempts 0 tr"

text \<open>
  The behaviour of the backing services, a parameter: whether the \<open>k\<close>-th connection attempt
  to a database resolves, and whether a table's migration resolves.
\<close>

record db_env =
  connect_resolves :: "string \<Rightarrow> nat \<Rightarrow> bool"
  migrate_resolves :: "string \<Rightarrow> bool"

text \<open>
  The value of the instance's \<^verbatim>\<open>connect\<close> property: the method of the class, or the function
  \<^verbatim>\<open>() => Promise.resolve()\<close> that the first call stores over it.
\<close>

datatype connect_method = ConnectOriginal | ConnectResolved

record database =
  connect_method :: connect_method
  db_trace :: "db_event list"

definition migrated_tables :: "string list" where
  "migrated_tables = [''guilds'', ''users'', ''vars'', ''events'', ''tags'', ''chatlogs'', ''dumps'']"

text \<open>
  \<^verbatim>\<open>Database.connect\<close>. The members of each \<^verbatim>\<open>Promise.all\<close> run interleaved in the source; the
  trace lists them one after the other, in the order of the array. \<^verbatim>\<open>Promise.all\<close> rejects
  when a member rejects, and then the statements after it do not run.
\<close>

definition connect :: "db_env \<Rightarrow> database \<Rightarrow> (database \<times> outcome) option" where
  "connect env db =
     (case connect_method db of
        ConnectResolved \<Rightarrow> Some (db, Resolved)
      | ConnectOriginal \<Rightarrow>
          do {
            (t1, r1) \<leftarrow> retryConnect ''rethinkDb'' (connect_resolves env ''rethinkDb'') 5000 10 (db_trace db);
            (t2, r2) \<leftarrow> retryConnect ''cassandra'' (connect_resolves env ''cassandra'') 5000 10 t1;
            (t3, r3) \<leftarrow> retryConnect ''postgresdb'' (connect_resolves env ''postgresdb'') 5000 10 t2;
            (t4, r4) \<leftarrow> retryConnect ''airtable'' (connect_resolves env ''airtable'') 5000 10 t3;
            (if list_all (\<lambda>r. r = Resolved) [r1, r2, r3, r4]
             then (let t5 = t4 @ map Migrate migrated_tables
                   in if list_all (migrate_resolves env) migrated_tables
                      then Some (db\<lparr>connect_method := ConnectResolved,
                                    db_trace := t5 @ [WatchChanges ''guilds'', WatchChanges ''users'']\<rparr>,
                                 Resolved)
                      else Some (db\<lparr>connect_method := ConnectResolved, db_trace := t5\<rparr>, Rejected))
             else Some (db\<lparr>connect_method := ConnectResolved, db_trace := t4\<rparr>, Rejected))
          })"

section \<open>Custom commands (saveCommand and shrinkCommand)\<close>

subsection \<open>JavaScript values\<close>

text \<open>
  Stored commands are plain objects. An object is the list of its own properties in insertion
  order; reading a property that is missing gives \<open>Undefined\<close>. Numbers are only copied by the
  code below, so integers stand for them.
\<close>

datatype jsvalue =
    Undefined
  | Null
  | Boolean bool
  | Number int
  | String string
  | Array "jsvalue list"
  | Object "(string \<times> jsvalue) list"

type_synonym jsobject = "(string \<times> jsvalue) list"

definition get_prop :: "jsobject \<Rightarrow> string \<Rightarrow> jsvalue" where
  "get_prop obj key = (case map_of obj key of Some v \<Rightarrow> v | None \<Rightarrow> Undefined)"

text \<open>Optional chaining, \<^verbatim>\<open>obj?.key\<close>, and the nullish coalescing operator, \<^verbatim>\<open>v ?? d\<close>.\<close>

definition optional_prop :: "jsobject option \<Rightarrow> string \<Rightarrow> jsvalue" where
  "optional_prop obj key = (case obj of None \<Rightarrow> Undefined | Some ob \<Rightarrow> get_prop ob key)"

definition nullish :: "jsvalue \<Rightarrow> jsvalue \<Rightarrow> jsvalue" where
  "nullish v d = (if v = Undefined \<or> v = Null then d else v)"

definition startsWith :: "string \<Rightarrow> string \<Rightarrow> bool" where
  "startsWith s p = (take (length p) s = p)"

text \<open>The cross mark U+274C and the check mark U+2705, as their UTF-8 bytes, and the line feed.\<close>

definition cross_mark :: string where
  "cross_mark = [CHR 0xE2, CHR 0x9D, CHR 0x8C]"

definition check_mark :: string where
  "check_mark = [CHR 0xE2, CHR 0x9C, CHR 0x85]"

definition newline :: string where
  "newline = [CHR 0x0A]"

subsection \<open>shrinkCommand\<close>

definition shrinkCommand :: "jsobject \<Rightarrow> jsobject" where
  "shrinkCommand command =
     [(''content'', get_prop command ''content''),
      (''cooldown'', get_prop command ''cooldown''),
      (''flags'', get_prop command ''flags''),
      (''help'', get_prop command ''help''),
      (''hidden'', get_prop command ''hidden''),
      (''lang'', get_prop command ''lang''),
      (''managed'', get_prop command ''managed''),
      (''roles'', get_prop command ''roles''),
      (''uses'', get_prop command ''uses'')]"

subsection \<open>saveCommand\<close>

text \<open>
  The result of \<^verbatim>\<open>this.cluster.bbtag.check(content)\<close>; only the length of \<^verbatim>\<open>errors\<close> is read.
  The analyser and \<^verbatim>\<open>bbtagUtil.stringifyAnalysis\<close> are not among the sources and are parameters.
\<close>

record analysis =
  an_errors :: "string list"
  an_warnings :: "string list"

record bbtag_engine =
  check :: "string \<Rightarrow> analysis"
  stringifyAnalysis :: "analysis \<Rightarrow> string"

text \<open>
  What \<^verbatim>\<open>saveCommand\<close> reads of the command context: \<^verbatim>\<open>context.author.id\<close>,
  \<^verbatim>\<open>context.channel.guild.id\<close>, and the content of the author's reply to a query
  (\<^verbatim>\<open>(await this.util.awaitQuery(...))?.content\<close>), \<open>None\<close> when there is no reply.
\<close>

record command_context =
  author_id :: snowflake
  channel_guild_id :: snowflake
  query_reply :: "string option"

text \<open>
  Modelled from the spec: the store's \<^verbatim>\<open>database.guilds.setCommand\<close>, which is not among the
  sources. Section 6: the store capability gets and sets custom-command bodies. The store
  keeps the commands by guild and name, and the calls made to it in order.
\<close>

datatype store_call = SetCommand snowflake string jsobject

record guild_store =
  stored_commands :: "(snowflake \<times> string) \<rightharpoonup> jsobject"
  store_calls :: "store_call list"

definition setCommand :: "snowflake \<Rightarrow> string \<Rightarrow> jsobject \<Rightarrow> guild_store \<Rightarrow> guild_store" where
  "setCommand guildId commandName command store =
     store\<lparr>stored_commands := (stored_commands store)((guildId, commandName) \<mapsto> command),
           store_calls := store_calls store @ [SetCommand guildId commandName command]\<rparr>"

definition requestCommandContent :: "command_context \<Rightarrow> string option \<Rightarrow> string option" where
  "requestCommandContent context content =
     (if content \<noteq> None \<and> length (the content) > 0
      then content
      else (let content = query_reply context
            in if content = None \<or> content = Some ''c''
               then None
               else (if length (the content) > 0 then content else None)))"

definition saveCommand ::
  "bbtag_engine \<Rightarrow> command_context \<Rightarrow> string \<Rightarrow> string \<Rightarrow> string option \<Rightarrow> jsobject option \<Rightarrow>
   guild_store \<Rightarrow> guild_store \<times> string option" where
  "saveCommand bbtag context operation commandName content currentCommand store =
     (case requestCommandContent context content of
        None \<Rightarrow> (store, None)
      | Some content \<Rightarrow>
          (let analysis = check bbtag content
           in if length (an_errors analysis) > 0
              then (store,
                    Some (cross_mark @ '' There were errors with the bbtag you provided!'' @ newline @
                          stringifyAnalysis bbtag analysis))
              else (let command =
                          [(''content'', String content),
                           (''author'', String (author_id context)),
                           (''authorizer'', String (author_id context)),
                           (''hidden'', nullish (optional_prop currentCommand ''hidden'')
                                          (Boolean (startsWith commandName ''_''))),
                           (''flags'', optional_prop currentCommand ''flags''),
                           (''cooldown'', optional_prop currentCommand ''cooldown''),
                           (''help'', optional_prop currentCommand ''help''),
                           (''lang'', optional_prop currentCommand ''lang''),
                           (''roles'', optional_prop currentCommand ''roles''),
                           (''uses'', optional_prop currentCommand ''uses'')]
                    in (setCommand (channel_guild_id context) commandName command store,
                        Some (check_mark @ '' Custom command `'' @ commandName @ ''` '' @ operation @ ''.'' @
                              newline @ stringifyAnalysis bbtag analysis)))))"

section \<open>ConcatBinding (the generator method)\<close>

text \<open>
  A merged range of positional arguments: \<^verbatim>\<open>args.raw\<close> and \<^verbatim>\<open>args.value\<close>.
\<close>

record flag_value =
  fv_raw :: string
  fv_value :: string

text \<open>
  The part of the state the method reads: \<^verbatim>\<open>state.flags._\<close>, the positional arguments, and
  \<^verbatim>\<open>state.argIndex\<close>.
\<close>

record binder_state =
  flags_positional :: "flag_value list"
  argIndex :: nat

text \<open>
  The fields of the class. The bindings that follow (\<^verbatim>\<open>next\<close>) and the result of \<^verbatim>\<open>parse\<close>
  are passed on untouched, so their types are left open.
\<close>

record ('n, 'p) concat_binding =
  cb_name :: string
  cb_fallback :: "string option"
  cb_raw :: bool
  cb_next :: 'n
  cb_parse :: "string \<Rightarrow> binder_state \<Rightarrow> 'p"

text \<open>
  What the generator yields. The base class is not among the sources, so a yielded value
  records the call that makes it: \<^verbatim>\<open>this.getBindingResult(state, next, n, parsed)\<close> or
  \<^verbatim>\<open>this.bindingError(state, message)\<close>.
\<close>

datatype ('n, 'p) binding_result =
    GetBindingResult binder_state 'n int 'p
  | BindingError binder_state string

text \<open>
  The body of the \<^verbatim>\<open>for\<close> loop at index \<open>i\<close>. \<open>merge\<close> is \<^verbatim>\<open>state.flags._.merge(start, end)\<close>,
  a parameter: the class of \<^verbatim>\<open>state.flags._\<close> is not among the sources.
\<close>

definition loop_candidate ::
  "(flag_value list \<Rightarrow> int \<Rightarrow> int \<Rightarrow> flag_value) \<Rightarrow> ('n, 'p) concat_binding \<Rightarrow> binder_state \<Rightarrow> int \<Rightarrow>
   ('n, 'p) binding_result" where
  "loop_candidate merge this state i =
     (let args = merge (flags_positional state) (int (argIndex state)) (int (argIndex state) + i + 1);
          arg = (if cb_raw this then fv_raw args else fv_value args)
      in GetBindingResult state (cb_next this) i (cb_parse this arg state))"

text \<open>
  The loop \<^verbatim>\<open>for (let i = 0; i <= state.flags._.length - state.argIndex; i++)\<close>, from index \<open>i\<close>
  on. The difference is taken over the integers, as JavaScript takes it.
\<close>

function binder_loop ::
  "(flag_value list \<Rightarrow> int \<Rightarrow> int \<Rightarrow> flag_value) \<Rightarrow> ('n, 'p) concat_binding \<Rightarrow> binder_state \<Rightarrow> int \<Rightarrow>
   ('n, 'p) binding_result list" where
  "binder_loop merge this state i =
     (if i \<le> int (length (flags_positional state)) - int (argIndex state)
      then loop_candidate merge this state i # binder_loop merge this state (i + 1)
      else [])"
  by pat_completeness auto
termination
  by (relation "measure (\<lambda>(merge, this, state, i).
        nat (int (length (flags_positional state)) - int (argIndex state) + 1 - i))") auto

text \<open>The list of everything the generator yields, in order.\<close>

definition concat_bind ::
  "(flag_value list \<Rightarrow> int \<Rightarrow> int \<Rightarrow> flag_value) \<Rightarrow> ('n, 'p) concat_binding \<Rightarrow> binder_state \<Rightarrow>
   ('n, 'p) binding_result list" where
  "concat_bind merge this state =
     (if length (flags_positional state) = argIndex state
      then (case cb_fallback this of
              Some fallback \<Rightarrow> [GetBindingResult state (cb_next this) 0 (cb_parse this fallback state)]
            | None \<Rightarrow>
                [BindingError state
                   (cross_mark @ '' Not enough arguments! `'' @ cb_name this @ ''` is required'')])
      else binder_loop merge this state 0)"

section \<open>Concrete inputs\<close>

definition example_context :: bbtag_context where
  "example_context =
     \<lparr>ctx_channel = \<lparr>channel_id = ''c1''\<rparr>,
      ctx_msg = \<lparr>msg_id = ''m1'', msg_channel_id = ''c1''\<rparr>,
      ctx_guild = \<lparr>guild_id = ''g1''\<rparr>,
      isStaff = False,
      ownsMessage = (\<lambda>m. m = ''m1''),
      suppressLookup = False\<rparr>"

definition staff_context :: bbtag_context where
  "staff_context = example_context\<lparr>isStaff := True\<rparr>"

text \<open>A platform on which channel \<open>c1\<close> exists and holds message \<open>m2\<close>, and deletions succeed.\<close>

definition example_host :: host where
  "example_host =
     \<lparr>util_parseChannel = (\<lambda>context channelId suppress.
          if channelId = ''c1'' then Some \<lparr>channel_id = ''c1''\<rparr> else None),
      bot_getMessage = (\<lambda>channelId messageId.
          if channelId = ''c1'' \<and> messageId = ''m2''
          then Inr (Some \<lparr>msg_id = ''m2'', msg_channel_id = ''c1''\<rparr>)
          else Inl NotFound),
      bot_deleteMessage = (\<lambda>channelId messageId. Inr ())\<rparr>"

text \<open>The same platform when every deletion fails.\<close>

definition failing_host :: host where
  "failing_host = example_host\<lparr>bot_deleteMessage := (\<lambda>channelId messageId. Inl TransportError)\<rparr>"

definition empty_world :: world where
  "empty_world = \<lparr>notCommandMessages = Map.empty, effects = []\<rparr>"

definition empty_evaluation :: evaluation where
  "empty_evaluation = \<lparr>ev_output = [], ev_errors = [], ev_aborted = False\<rparr>"

text \<open>A database instance on which \<^verbatim>\<open>connect\<close> has not been called.\<close>

definition fresh_database :: database where
  "fresh_database = \<lparr>connect_method = ConnectOriginal, db_trace = []\<rparr>"



text \<open>Services of which one, cassandra, never accepts a connection.\<close>

definition cassandra_down :: db_env where
  "cassandra_down =
     \<lparr>connect_resolves = (\<lambda>dbName attempt. dbName \<noteq> ''cassandra''),
      migrate_resolves = (\<lambda>table. True)\<rparr>"


text \<open>
  An instance of the parameter \<open>merge\<close> for the concrete runs: it joins, with spaces, the
  arguments from \<open>start\<close> up to \<open>end\<close>, the range being cut to the list as \<^verbatim>\<open>Array.prototype.slice\<close>
  cuts it.
\<close>

fun join_words :: "string list \<Rightarrow> string" where
  "join_words [] = []"
| "join_words [w] = w"
| "join_words (w # ws) = w @ '' '' @ join_words ws"

definition slice_merge :: "flag_value list \<Rightarrow> int \<Rightarrow> int \<Rightarrow> flag_value" where
  "slice_merge args start end' =
     (let part = take (nat end' - nat start) (drop (nat start) args)
      in \<lparr>fv_raw = join_words (map fv_raw part), fv_value = join_words (map fv_value part)\<rparr>)"

definition text_binding :: "(unit, string) concat_binding" where
  "text_binding =
     \<lparr>cb_name = ''text'', cb_fallback = None, cb_raw = False, cb_next = (),
      cb_parse = (\<lambda>value state. value)\<rparr>"

definition one_argument :: binder_state where
  "one_argument = \<lparr>flags_positional = [\<lparr>fv_raw = ''HELLO'', fv_value = ''hello''\<rparr>], argIndex = 0\<rparr>"

definition no_arguments :: binder_state where
  "no_arguments = \<lparr>flags_positional = [], argIndex = 0\<rparr>"

text \<open>A stored command, as the database returns it.\<close>

definition example_command :: jsobject where
  "example_command =
     [(''name'', String ''greet''),
      (''content'', String ''Hello {username}''),
      (''author'', String ''u1''),
      (''authorizer'', String ''u2''),
      (''lang'', String ''js''),
      (''uses'', Number 3),
      (''hidden'', Boolean False)]"

text \<open>An analyser that reports one error for the script \<open>{\<close> and none for any other.\<close>

definition example_bbtag :: bbtag_engine where
  "example_bbtag =
     \<lparr>check = (\<lambda>source. \<lparr>an_errors = (if source = ''{'' then [''Unmatched brace''] else []),
                          an_warnings = []\<rparr>),
      stringifyAnalysis = (\<lambda>a. join_words (an_errors a))\<rparr>"

definition example_command_context :: command_context where
  "example_command_context = \<lparr>author_id = ''u1'', channel_guild_id = ''g1'', query_reply = None\<rparr>"

definition empty_store :: guild_store where
  "empty_store = \<lparr>stored_commands = Map.empty, store_calls = []\<rparr>"

section \<open>Theorems\<close>

subsection \<open>The delete subtag\<close>

lemma delete_tag_counts: "map fst (whenArgs delete_tag) = [0, 1, 2]"
  by (simp add: delete_tag_def)

lemma select_handler_exact: "map_of (whenArgs d) n = Some h \<Longrightarrow> select_handler d n = h"
  by (simp add: select_handler_def)

lemma select_handler_default: "map_of (whenArgs d) n = None \<Longrightarrow> select_handler d n = whenDefault d"
  by (simp add: select_handler_def)

lemma delete_tag_no_handler: "3 \<le> n \<Longrightarrow> map_of (whenArgs delete_tag) n = None"
  by (simp add: delete_tag_def)

lemma execute_delete_0:
  "execute delete_tag platform subtag context [] w =
   deleteMessage platform subtag context (channel_id (ctx_channel context)) (msg_id (ctx_msg context)) w"
  by (simp add: execute_def select_handler_def delete_tag_def)

lemma execute_delete_1:
  "execute delete_tag platform subtag context [messageId] w =
   deleteMessage platform subtag context (channel_id (ctx_channel context)) messageId w"
  by (simp add: execute_def select_handler_def delete_tag_def)

lemma execute_delete_2:
  "execute delete_tag platform subtag context [channelId, messageId] w =
   deleteMessage platform subtag context channelId messageId w"
  by (simp add: execute_def select_handler_def delete_tag_def)

lemma deleteMessage_denied:
  "\<not> isStaff context \<Longrightarrow> \<not> ownsMessage context messageId \<Longrightarrow>
   deleteMessage platform subtag context channelId messageId w =
     (w, Error subtag (RuntimeError ''Author must be staff to delete unrelated messages''))"
  by (simp add: deleteMessage_def util_error_def)

lemma deleteMessage_ignores_delete_outcome:
  "deleteMessage (platform\<lparr>bot_deleteMessage := f\<rparr>) subtag context channelId messageId w =
   deleteMessage platform subtag context channelId messageId w"
  by (simp add: deleteMessage_def Let_def split: option.splits sum.splits prod.splits)

lemma deleteMessage_lookup_failed:
  assumes "isStaff context \<or> ownsMessage context messageId"
    and "util_parseChannel platform context channelId (suppressLookup context) = Some ch"
    and "msg_id (ctx_msg context) \<noteq> messageId"
    and "bot_getMessage platform (channel_id ch) messageId = Inl err"
  shows "deleteMessage platform subtag context channelId messageId w =
     (w\<lparr>effects := effects w @ [GetMessage (channel_id ch) messageId]\<rparr>, Error subtag NoMessageFound)"
  using assms by (simp add: deleteMessage_def noMessageFound_def)

lemma deleteMessage_reaches_delete:
  assumes "isStaff context \<or> ownsMessage context messageId"
    and "util_parseChannel platform context channelId (suppressLookup context) = Some ch"
    and "(messageId = msg_id (ctx_msg context) \<and> m = ctx_msg context) \<or>
         (messageId \<noteq> msg_id (ctx_msg context) \<and> bot_getMessage platform (channel_id ch) messageId = Inr (Some m))"
  shows "deleteMessage platform subtag context channelId messageId w =
     (setNotCommand (guild_id (ctx_guild context)) (msg_id (ctx_msg context))
        (w\<lparr>effects := effects w @
             (if messageId \<noteq> msg_id (ctx_msg context) then [GetMessage (channel_id ch) messageId] else [])\<rparr>)
      \<lparr>effects := effects w @
             (if messageId \<noteq> msg_id (ctx_msg context) then [GetMessage (channel_id ch) messageId] else []) @
             [MarkNotCommand (guild_id (ctx_guild context)) (msg_id (ctx_msg context)),
              DeleteMessage (msg_channel_id m) (msg_id m)]\<rparr>, NoOutput)"
  using assms by (auto simp add: deleteMessage_def setNotCommand_def Let_def split: sum.splits)

text \<open>
  C1. Dispatch selects the handler registered for the exact argument count, and the default
  handler when there is none. The \<open>delete\<close> subtag registers handlers for the counts 0, 1 and
  2 only, so every call with three or more arguments runs its default handler, which returns
  the too-many-arguments error and changes nothing.
\<close>

theorem delete_arity_dispatch:
  "(map_of (whenArgs d) n = Some h \<longrightarrow> select_handler d n = h) \<and>
   (map_of (whenArgs d) n = None \<longrightarrow> select_handler d n = whenDefault d) \<and>
   map fst (whenArgs delete_tag) = [0, 1, 2] \<and>
   (3 \<le> length args \<longrightarrow>
      select_handler delete_tag (length args) = whenDefault delete_tag \<and>
      execute delete_tag platform subtag context args w = (w, Error subtag TooManyArguments))"
proof -
  have "execute delete_tag platform subtag context args w = (w, Error subtag TooManyArguments)"
    if "3 \<le> length args"
  proof -
    have "select_handler delete_tag (length args) = whenDefault delete_tag"
      using that by (simp add: select_handler_default delete_tag_no_handler)
    then show ?thesis
      by (simp add: execute_def delete_tag_def tooManyArguments_def)
  qed
  then show ?thesis
    by (simp add: select_handler_exact select_handler_default delete_tag_no_handler delete_tag_counts)
qed

text \<open>A call of \<open>delete\<close> with three arguments.\<close>

theorem delete_arity_dispatch_witness:
  "map_of (whenArgs delete_tag) 3 = None \<and>
   select_handler delete_tag 3 = whenDefault delete_tag \<and>
   execute delete_tag example_host ''{delete;a;b;c}'' staff_context [''a'', ''b'', ''c''] empty_world
     = (empty_world, Error ''{delete;a;b;c}'' TooManyArguments) \<and>
   map_of (whenArgs delete_tag) 2 =
     Some (\<lambda>platform subtag context args. deleteMessage platform subtag context (args ! 0) (args ! 1)) \<and>
   select_handler delete_tag 2 =
     (\<lambda>platform subtag context args. deleteMessage platform subtag context (args ! 0) (args ! 1))"
  using delete_arity_dispatch [of delete_tag 3 "whenDefault delete_tag" "[''a'', ''b'', ''c'']"
      example_host "''{delete;a;b;c}''" staff_context empty_world]
    delete_arity_dispatch [of delete_tag 2
      "\<lambda>platform subtag context args. deleteMessage platform subtag context (args ! 0) (args ! 1)"
      "[]" example_host "''{delete}''" staff_context empty_world]
  by (simp add: delete_tag_no_handler) (simp add: delete_tag_def)

text \<open>
  C2. When the author is not staff and does not own the target message, \<open>deleteMessage\<close>
  returns the error "Author must be staff to delete unrelated messages" and leaves the world
  as it was: no effect is added to the sequence (no platform call, no marker) and the map of
  markers is the same. The same holds for a call of the subtag with one or two arguments. The
  error is the non-fatal kind: the evaluation of a sequence of sibling calls renders and logs
  it and goes on with the remaining calls, from the unchanged world.
\<close>

theorem delete_unauthorized_no_effect:
  assumes "\<not> isStaff context" and "\<not> ownsMessage context messageId"
  shows "deleteMessage platform subtag context channelId messageId w =
           (w, Error subtag (RuntimeError ''Author must be staff to delete unrelated messages'')) \<and>
         execute delete_tag platform subtag context [messageId] w =
           (w, Error subtag (RuntimeError ''Author must be staff to delete unrelated messages'')) \<and>
         execute delete_tag platform subtag context [channelId, messageId] w =
           (w, Error subtag (RuntimeError ''Author must be staff to delete unrelated messages'')) \<and>
         evaluate_siblings token (deleteMessage platform subtag context channelId messageId # calls) w ev =
           evaluate_siblings token calls w
             (ev\<lparr>ev_output := ev_output ev @ token (RuntimeError ''Author must be staff to delete unrelated messages''),
                 ev_errors := ev_errors ev @ [(subtag, RuntimeError ''Author must be staff to delete unrelated messages'')]\<rparr>)"
  using assms by (simp add: deleteMessage_denied execute_delete_1 execute_delete_2)

text \<open>
  A member who is not staff and owns only the invoking message \<open>m1\<close> asks for the deletion of
  \<open>m2\<close>; the sibling after the call still produces its text.
\<close>

theorem delete_unauthorized_no_effect_witness:
  "\<not> isStaff example_context \<and> \<not> ownsMessage example_context ''m2'' \<and>
   deleteMessage example_host ''{delete;m2}'' example_context ''c1'' ''m2'' empty_world =
     (empty_world, Error ''{delete;m2}'' (RuntimeError ''Author must be staff to delete unrelated messages'')) \<and>
   effects (fst (deleteMessage example_host ''{delete;m2}'' example_context ''c1'' ''m2'' empty_world)) = [] \<and>
   evaluate_siblings (\<lambda>d. ''[error]'')
     [deleteMessage example_host ''{delete;m2}'' example_context ''c1'' ''m2'', \<lambda>w. (w, Text ''after'')]
     empty_world empty_evaluation =
     (empty_world,
      \<lparr>ev_output = ''[error]after'',
       ev_errors = [(''{delete;m2}'', RuntimeError ''Author must be staff to delete unrelated messages'')],
       ev_aborted = False\<rparr>)"
  using delete_unauthorized_no_effect [of example_context "''m2''" example_host "''{delete;m2}''" "''c1''"
      empty_world "\<lambda>d. ''[error]''" "[\<lambda>w. (w, Text ''after'')]" empty_evaluation]
  by (simp add: example_context_def empty_world_def empty_evaluation_def)

text \<open>
  C3, as stated, fails. On a platform whose \<open>deleteMessage\<close> rejects, a staff member's \<open>{delete}\<close>
  reaches the deletion, the call fails, and the handler returns no output and no diagnostic:
  exactly what it returns, world included, when the deletion succeeds.
\<close>

theorem delete_failure_swallowed_counterexample:
  "bot_deleteMessage failing_host ''c1'' ''m1'' = Inl TransportError \<and>
   deleteMessage failing_host ''{delete}'' staff_context ''c1'' ''m1'' empty_world =
     (\<lparr>notCommandMessages = [''g1'' \<mapsto> [''m1'' \<mapsto> True]],
       effects = [MarkNotCommand ''g1'' ''m1'', DeleteMessage ''c1'' ''m1'']\<rparr>, NoOutput) \<and>
   deleteMessage failing_host ''{delete}'' staff_context ''c1'' ''m1'' empty_world =
     deleteMessage example_host ''{delete}'' staff_context ''c1'' ''m1'' empty_world"
  by (simp add: deleteMessage_def setNotCommand_def failing_host_def example_host_def
      staff_context_def example_context_def empty_world_def)

text \<open>
  C3, amended. Once the author is allowed and the channel is found: a failing \<open>getMessage\<close>
  lookup of a message other than the invoking one is recovered into the in-band "no message
  found" error, after the lookup and nothing else; a failing \<open>deleteMessage\<close> call is caught
  and ignored, the handler returning no output after having made the call; and the handler's
  result and world do not depend on what the platform's \<open>deleteMessage\<close> answers.
\<close>

theorem delete_capability_failures:
  assumes "isStaff context \<or> ownsMessage context messageId"
    and "util_parseChannel platform context channelId (suppressLookup context) = Some ch"
  shows "(msg_id (ctx_msg context) \<noteq> messageId \<and> bot_getMessage platform (channel_id ch) messageId = Inl err \<longrightarrow>
            deleteMessage platform subtag context channelId messageId w =
              (w\<lparr>effects := effects w @ [GetMessage (channel_id ch) messageId]\<rparr>, Error subtag NoMessageFound)) \<and>
         ((messageId = msg_id (ctx_msg context) \<and> m = ctx_msg context \<or>
           messageId \<noteq> msg_id (ctx_msg context) \<and> bot_getMessage platform (channel_id ch) messageId = Inr (Some m)) \<and>
          bot_deleteMessage platform (msg_channel_id m) (msg_id m) = Inl e \<longrightarrow>
            snd (deleteMessage platform subtag context channelId messageId w) = NoOutput \<and>
            DeleteMessage (msg_channel_id m) (msg_id m) \<in> set (effects (fst (deleteMessage platform subtag context channelId messageId w)))) \<and>
         deleteMessage (platform\<lparr>bot_deleteMessage := f\<rparr>) subtag context channelId messageId w =
           deleteMessage platform subtag context channelId messageId w"
proof (intro conjI impI)
  assume "msg_id (ctx_msg context) \<noteq> messageId \<and> bot_getMessage platform (channel_id ch) messageId = Inl err"
  then show "deleteMessage platform subtag context channelId messageId w =
      (w\<lparr>effects := effects w @ [GetMessage (channel_id ch) messageId]\<rparr>, Error subtag NoMessageFound)"
    using assms by (simp add: deleteMessage_lookup_failed)
next
  assume a: "(messageId = msg_id (ctx_msg context) \<and> m = ctx_msg context \<or>
           messageId \<noteq> msg_id (ctx_msg context) \<and> bot_getMessage platform (channel_id ch) messageId = Inr (Some m)) \<and>
          bot_deleteMessage platform (msg_channel_id m) (msg_id m) = Inl e"
  then have r: "(messageId = msg_id (ctx_msg context) \<and> m = ctx_msg context) \<or>
         (messageId \<noteq> msg_id (ctx_msg context) \<and> bot_getMessage platform (channel_id ch) messageId = Inr (Some m))"
    by blast
  show "snd (deleteMessage platform subtag context channelId messageId w) = NoOutput"
    by (simp add: deleteMessage_reaches_delete [OF assms r])
  show "DeleteMessage (msg_channel_id m) (msg_id m) \<in> set (effects (fst (deleteMessage platform subtag context channelId messageId w)))"
    by (simp add: deleteMessage_reaches_delete [OF assms r])
next
  show "deleteMessage (platform\<lparr>bot_deleteMessage := f\<rparr>) subtag context channelId messageId w =
           deleteMessage platform subtag context channelId messageId w"
    by (rule deleteMessage_ignores_delete_outcome)
qed

text \<open>
  On the platform whose deletions fail: the lookup of the unknown message \<open>m3\<close> gives the
  error, and the deletion of the known message \<open>m2\<close> gives no output.
\<close>

theorem delete_capability_failures_witness:
  "(isStaff staff_context \<or> ownsMessage staff_context ''m3'') \<and>
   util_parseChannel failing_host staff_context ''c1'' (suppressLookup staff_context) = Some \<lparr>channel_id = ''c1''\<rparr> \<and>
   bot_getMessage failing_host ''c1'' ''m3'' = Inl NotFound \<and>
   deleteMessage failing_host ''{delete;m3}'' staff_context ''c1'' ''m3'' empty_world =
     (\<lparr>notCommandMessages = Map.empty, effects = [GetMessage ''c1'' ''m3'']\<rparr>, Error ''{delete;m3}'' NoMessageFound) \<and>
   bot_getMessage failing_host ''c1'' ''m2'' = Inr (Some \<lparr>msg_id = ''m2'', msg_channel_id = ''c1''\<rparr>) \<and>
   bot_deleteMessage failing_host ''c1'' ''m2'' = Inl TransportError \<and>
   snd (deleteMessage failing_host ''{delete;m2}'' staff_context ''c1'' ''m2'' empty_world) = NoOutput \<and>
   DeleteMessage ''c1'' ''m2'' \<in> set (effects (fst (deleteMessage failing_host ''{delete;m2}'' staff_context ''c1'' ''m2'' empty_world)))"
proof -
  have p: "isStaff staff_context \<or> ownsMessage staff_context ''m3''"
    and q: "isStaff staff_context \<or> ownsMessage staff_context ''m2''"
    by (simp_all add: staff_context_def)
  have c: "util_parseChannel failing_host staff_context ''c1'' (suppressLookup staff_context) = Some \<lparr>channel_id = ''c1''\<rparr>"
    by (simp add: failing_host_def example_host_def)
  have g3: "bot_getMessage failing_host ''c1'' ''m3'' = Inl NotFound"
    and g2: "bot_getMessage failing_host ''c1'' ''m2'' = Inr (Some \<lparr>msg_id = ''m2'', msg_channel_id = ''c1''\<rparr>)"
    and d2: "bot_deleteMessage failing_host ''c1'' ''m2'' = Inl TransportError"
    by (simp_all add: failing_host_def example_host_def)
  have m: "msg_id (ctx_msg staff_context) = ''m1''"
    by (simp add: staff_context_def example_context_def)
  show ?thesis
    using delete_capability_failures [OF p c, of NotFound "''{delete;m3}''" empty_world "ctx_msg staff_context" TransportError
        "\<lambda>channelId messageId. Inr ()"]
      delete_capability_failures [OF q c, of NotFound "''{delete;m2}''" empty_world
        "\<lparr>msg_id = ''m2'', msg_channel_id = ''c1''\<rparr>" TransportError
        "\<lambda>channelId messageId. Inr ()"]
    by (simp add: p c g3 g2 d2 m empty_world_def)
qed

text \<open>
  C7, as stated, fails. A staff member's \<open>{delete;m2}\<close>, invoked by message \<open>m1\<close>, finds and
  deletes \<open>m2\<close>; the only marker set is for \<open>m1\<close>, the invoking message, and none is set for
  the deleted message \<open>m2\<close>.
\<close>

theorem delete_marker_key_counterexample:
  "isStaff staff_context \<and>
   util_parseChannel example_host staff_context ''c1'' (suppressLookup staff_context) = Some \<lparr>channel_id = ''c1''\<rparr> \<and>
   bot_getMessage example_host ''c1'' ''m2'' = Inr (Some \<lparr>msg_id = ''m2'', msg_channel_id = ''c1''\<rparr>) \<and>
   deleteMessage example_host ''{delete;m2}'' staff_context ''c1'' ''m2'' empty_world =
     (\<lparr>notCommandMessages = [''g1'' \<mapsto> [''m1'' \<mapsto> True]],
       effects = [GetMessage ''c1'' ''m2'', MarkNotCommand ''g1'' ''m1'', DeleteMessage ''c1'' ''m2'']\<rparr>, NoOutput) \<and>
   [''m1'' \<mapsto> True] ''m2'' = None"
  by (simp add: deleteMessage_def setNotCommand_def example_host_def
      staff_context_def example_context_def empty_world_def)

text \<open>
  C7, amended. Whenever the handler reaches the deletion (author allowed, channel found,
  target message at hand: the invoking message itself, or the one \<open>getMessage\<close> returned), it
  sets the marker keyed by the guild id and the id of the invoking message, \<open>context.msg.id\<close>,
  and only then calls the platform's \<open>deleteMessage\<close> for the target; it returns no output.
\<close>

theorem delete_marks_invoking_message:
  assumes "isStaff context \<or> ownsMessage context messageId"
    and "util_parseChannel platform context channelId (suppressLookup context) = Some ch"
    and "(messageId = msg_id (ctx_msg context) \<and> m = ctx_msg context) \<or>
         (messageId \<noteq> msg_id (ctx_msg context) \<and> bot_getMessage platform (channel_id ch) messageId = Inr (Some m))"
  shows "snd (deleteMessage platform subtag context channelId messageId w) = NoOutput \<and>
         (\<exists>marked. notCommandMessages (fst (deleteMessage platform subtag context channelId messageId w))
                      (guild_id (ctx_guild context)) = Some marked \<and>
                   marked (msg_id (ctx_msg context)) = Some True) \<and>
         effects (fst (deleteMessage platform subtag context channelId messageId w)) =
           effects w @
           (if messageId \<noteq> msg_id (ctx_msg context) then [GetMessage (channel_id ch) messageId] else []) @
           [MarkNotCommand (guild_id (ctx_guild context)) (msg_id (ctx_msg context)),
            DeleteMessage (msg_channel_id m) (msg_id m)]"
  by (simp add: deleteMessage_reaches_delete [OF assms] setNotCommand_def)

text \<open>The run of the counterexample: the lookup, then the marker for \<open>m1\<close>, then the deletion of \<open>m2\<close>.\<close>

theorem delete_marks_invoking_message_witness:
  "snd (deleteMessage example_host ''{delete;m2}'' staff_context ''c1'' ''m2'' empty_world) = NoOutput \<and>
   (\<exists>marked. notCommandMessages (fst (deleteMessage example_host ''{delete;m2}'' staff_context ''c1'' ''m2'' empty_world))
                ''g1'' = Some marked \<and> marked ''m1'' = Some True) \<and>
   effects (fst (deleteMessage example_host ''{delete;m2}'' staff_context ''c1'' ''m2'' empty_world)) =
     [GetMessage ''c1'' ''m2'', MarkNotCommand ''g1'' ''m1'', DeleteMessage ''c1'' ''m2'']"
proof -
  have p: "isStaff staff_context \<or> ownsMessage staff_context ''m2''"
    by (simp add: staff_context_def)
  have c: "util_parseChannel example_host staff_context ''c1'' (suppressLookup staff_context) = Some \<lparr>channel_id = ''c1''\<rparr>"
    by (simp add: example_host_def)
  have g: "(''m2'' = msg_id (ctx_msg staff_context) \<and> \<lparr>msg_id = ''m2'', msg_channel_id = ''c1''\<rparr> = ctx_msg staff_context) \<or>
         (''m2'' \<noteq> msg_id (ctx_msg staff_context) \<and>
          bot_getMessage example_host (channel_id \<lparr>channel_id = ''c1''\<rparr>) ''m2'' = Inr (Some \<lparr>msg_id = ''m2'', msg_channel_id = ''c1''\<rparr>))"
    by (simp add: example_host_def staff_context_def example_context_def)
  show ?thesis
    using delete_marks_invoking_message [OF p c g, of "''{delete;m2}''" empty_world]
    by (simp add: staff_context_def example_context_def empty_world_def)
qed

subsection \<open>Database\<close>

lemma retryConnect_from_closed:
  "a \<le> n \<Longrightarrow>
   \<exists>k. a \<le> k \<and> k \<le> n \<and> (\<forall>i. a < i \<and> i \<le> k \<longrightarrow> \<not> c i) \<and> (k < n \<longrightarrow> c (Suc k)) \<and>
       retryConnect_from dbName c ms (enat n) a tr =
         Some (tr @ concat (map (\<lambda>i. [ConnectCall dbName i, LoggerError dbName i ms, Sleep ms]) [Suc a..<Suc k]) @
                 (if k < n then [ConnectCall dbName (Suc k), LoggerInit dbName (Suc k)] else []), Resolved)"
proof (induction "n - a" arbitrary: a tr)
  case 0
  then have "a = n" by simp
  then show ?case
    by (intro exI [of _ n]) (auto simp add: retryConnect_from.simps)
next
  case (Suc d)
  then have lt: "a < n" by simp
  show ?case
  proof (cases "c (Suc a)")
    case True
    show ?thesis
      using lt True by (intro exI [of _ a]) (auto simp add: retryConnect_from.simps)
  next
    case False
    have "d = n - Suc a" using Suc.hyps(2) by simp
    moreover have "Suc a \<le> n" using lt by simp
    ultimately obtain k where k: "Suc a \<le> k" "k \<le> n" "\<forall>i. Suc a < i \<and> i \<le> k \<longrightarrow> \<not> c i"
      "k < n \<longrightarrow> c (Suc k)"
      and run: "retryConnect_from dbName c ms (enat n) (Suc a)
           (tr @ [ConnectCall dbName (Suc a), LoggerError dbName (Suc a) ms, Sleep ms]) =
         Some ((tr @ [ConnectCall dbName (Suc a), LoggerError dbName (Suc a) ms, Sleep ms]) @
                 concat (map (\<lambda>i. [ConnectCall dbName i, LoggerError dbName i ms, Sleep ms]) [Suc (Suc a)..<Suc k]) @
                 (if k < n then [ConnectCall dbName (Suc k), LoggerInit dbName (Suc k)] else []), Resolved)"
      using Suc.hyps(1) [of "Suc a" "tr @ [ConnectCall dbName (Suc a), LoggerError dbName (Suc a) ms, Sleep ms]"]
      by blast
    have fails: "\<forall>i. a < i \<and> i \<le> k \<longrightarrow> \<not> c i"
    proof (intro allI impI)
      fix i assume "a < i \<and> i \<le> k"
      then have "i = Suc a \<or> (Suc a < i \<and> i \<le> k)" by auto
      then show "\<not> c i" using False k(3) by auto
    qed
    have upt: "[Suc a..<Suc k] = Suc a # [Suc (Suc a)..<Suc k]"
      using k(1) by (simp add: upt_conv_Cons)
    have step: "retryConnect_from dbName c ms (enat n) a tr =
        retryConnect_from dbName c ms (enat n) (Suc a)
           (tr @ [ConnectCall dbName (Suc a), LoggerError dbName (Suc a) ms, Sleep ms])"
      using lt False by (subst retryConnect_from.simps) simp
    show ?thesis
      using k(1,2,4) fails
      by (intro exI [of _ k]) (simp add: step run upt del: upt_Suc)
  qed
qed

lemma retryConnect_closed:
  "\<exists>k\<le>n. (\<forall>i. 0 < i \<and> i \<le> k \<longrightarrow> \<not> c i) \<and> (k < n \<longrightarrow> c (Suc k)) \<and>
       retryConnect dbName c ms (enat n) tr =
         Some (tr @ concat (map (\<lambda>i. [ConnectCall dbName i, LoggerError dbName i ms, Sleep ms]) [1..<Suc k]) @
                 (if k < n then [ConnectCall dbName (Suc k), LoggerInit dbName (Suc k)] else []), Resolved)"
  using retryConnect_from_closed [of 0 n c dbName ms tr]
  unfolding retryConnect_def by auto

lemma numeral_10_enat: "(10::enat) = enat 10"
  by (simp add: numeral_eq_enat)

lemma retryConnect_10:
  "\<exists>tr'. retryConnect dbName c ms 10 tr = Some (tr @ tr', Resolved) \<and> ConnectCall dbName 1 \<in> set tr'"
proof -
  obtain k where k: "k \<le> 10"
    and run: "retryConnect dbName c ms (enat 10) tr =
         Some (tr @ concat (map (\<lambda>i. [ConnectCall dbName i, LoggerError dbName i ms, Sleep ms]) [1..<Suc k]) @
                 (if k < 10 then [ConnectCall dbName (Suc k), LoggerInit dbName (Suc k)] else []), Resolved)"
    using retryConnect_closed [of 10 c dbName ms tr] by blast
  have "ConnectCall dbName 1 \<in> set (concat (map (\<lambda>i. [ConnectCall dbName i, LoggerError dbName i ms, Sleep ms]) [1..<Suc k]) @
                 (if k < 10 then [ConnectCall dbName (Suc k), LoggerInit dbName (Suc k)] else []))"
  proof (cases "k = 0")
    case True
    then show ?thesis by simp
  next
    case False
    then have "1 \<in> set [1..<Suc k]" by auto
    then show ?thesis by (auto simp del: upt_Suc)
  qed
  then show ?thesis
    using run by (simp add: numeral_10_enat) 
qed

lemma retryConnect_from_resolved:
  assumes "retryConnect_from dbName c ms maxAttempts a tr = Some y"
  shows "snd y = Resolved"
  by (rule retryConnect_from.raw_induct
        [where P = "\<lambda>dbName c ms maxAttempts a tr y. snd y = Resolved", OF _ assms])
     (auto split: if_splits)

lemma retryConnect_resolved:
  "retryConnect dbName c ms maxAttempts tr = Some (tr', r) \<Longrightarrow> r = Resolved"
  using retryConnect_from_resolved [of dbName c ms maxAttempts 0 tr "(tr', r)"]
  by (simp add: retryConnect_def)

lemma connect_first:
  assumes "connect_method db = ConnectOriginal"
  shows "\<exists>tr'. connect env db =
           Some (db\<lparr>connect_method := ConnectResolved,
                    db_trace := db_trace db @ tr' @ map Migrate migrated_tables @
                      (if list_all (migrate_resolves env) migrated_tables
                       then [WatchChanges ''guilds'', WatchChanges ''users''] else [])\<rparr>,
                 if list_all (migrate_resolves env) migrated_tables then Resolved else Rejected) \<and>
           ConnectCall ''rethinkDb'' 1 \<in> set tr' \<and> ConnectCall ''cassandra'' 1 \<in> set tr' \<and>
           ConnectCall ''postgresdb'' 1 \<in> set tr' \<and> ConnectCall ''airtable'' 1 \<in> set tr'"
proof -
  obtain t1 where t1: "retryConnect ''rethinkDb'' (connect_resolves env ''rethinkDb'') 5000 10 (db_trace db)
      = Some (db_trace db @ t1, Resolved)" "ConnectCall ''rethinkDb'' 1 \<in> set t1"
    using retryConnect_10 by blast
  obtain t2 where t2: "retryConnect ''cassandra'' (connect_resolves env ''cassandra'') 5000 10 (db_trace db @ t1)
      = Some (db_trace db @ t1 @ t2, Resolved)" "ConnectCall ''cassandra'' 1 \<in> set t2"
    using retryConnect_10 [of "''cassandra''" _ 5000 "db_trace db @ t1"] by auto
  obtain t3 where t3: "retryConnect ''postgresdb'' (connect_resolves env ''postgresdb'') 5000 10 (db_trace db @ t1 @ t2)
      = Some (db_trace db @ t1 @ t2 @ t3, Resolved)" "ConnectCall ''postgresdb'' 1 \<in> set t3"
    using retryConnect_10 [of "''postgresdb''" _ 5000 "db_trace db @ t1 @ t2"] by auto
  obtain t4 where t4: "retryConnect ''airtable'' (connect_resolves env ''airtable'') 5000 10 (db_trace db @ t1 @ t2 @ t3)
      = Some (db_trace db @ t1 @ t2 @ t3 @ t4, Resolved)" "ConnectCall ''airtable'' 1 \<in> set t4"
    using retryConnect_10 [of "''airtable''" _ 5000 "db_trace db @ t1 @ t2 @ t3"] by auto
  show ?thesis
    using assms t1(2) t2(2) t3(2) t4(2)
    by (intro exI [of _ "t1 @ t2 @ t3 @ t4"]) (simp add: connect_def t1(1) t2(1) t3(1) t4(1))
qed








text \<open>
  C9. \<open>retryConnect\<close> never rejects: whatever the bound, a call that returns has resolved. With
  the interval 5000 and the bound 10 that \<open>connect\<close> passes, it does return: for some \<open>k\<close> of at
  most 10, the attempts 1 to \<open>k\<close> fail, each followed by the error log and a sleep of 5000 ms,
  and attempt \<open>k + 1\<close> succeeds when \<open>k\<close> is less than 10; when \<open>k\<close> is 10 no attempt is left and
  the call resolves all the same. So \<open>connect\<close> on a fresh instance resolves whenever the
  migrations do, whatever the connection attempts did.
\<close>

theorem retryConnect_never_rejects:
  "(retryConnect dbName c ms maxAttempts tr = Some (tr', r) \<longrightarrow> r = Resolved) \<and>
   (\<exists>k\<le>10. (\<forall>i. 0 < i \<and> i \<le> k \<longrightarrow> \<not> c i) \<and> (k < 10 \<longrightarrow> c (Suc k)) \<and>
       retryConnect dbName c 5000 10 tr =
         Some (tr @ concat (map (\<lambda>i. [ConnectCall dbName i, LoggerError dbName i 5000, Sleep 5000]) [1..<Suc k]) @
                 (if k < 10 then [ConnectCall dbName (Suc k), LoggerInit dbName (Suc k)] else []), Resolved)) \<and>
   (connect_method db = ConnectOriginal \<and> list_all (migrate_resolves env) migrated_tables \<longrightarrow>
      (\<exists>db'. connect env db = Some (db', Resolved)))"
proof (intro conjI impI)
  assume "retryConnect dbName c ms maxAttempts tr = Some (tr', r)"
  then show "r = Resolved"
    by (rule retryConnect_resolved)
next
  show "\<exists>k\<le>10. (\<forall>i. 0 < i \<and> i \<le> k \<longrightarrow> \<not> c i) \<and> (k < 10 \<longrightarrow> c (Suc k)) \<and>
       retryConnect dbName c 5000 10 tr =
         Some (tr @ concat (map (\<lambda>i. [ConnectCall dbName i, LoggerError dbName i 5000, Sleep 5000]) [1..<Suc k]) @
                 (if k < 10 then [ConnectCall dbName (Suc k), LoggerInit dbName (Suc k)] else []), Resolved)"
    using retryConnect_closed [of 10 c dbName 5000 tr] by (simp add: numeral_10_enat)
next
  assume a: "connect_method db = ConnectOriginal \<and> list_all (migrate_resolves env) migrated_tables"
  then show "\<exists>db'. connect env db = Some (db', Resolved)"
    using connect_first [of db env] by auto
qed

text \<open>
  A database that never accepts a connection: ten attempts, ten sleeps, and the promise
  resolves; \<open>connect\<close> resolves with cassandra never connected.
\<close>

theorem retryConnect_never_rejects_witness:
  "retryConnect ''cassandra'' (\<lambda>attempt. False) 5000 10 [] =
     Some (concat (map (\<lambda>i. [ConnectCall ''cassandra'' i, LoggerError ''cassandra'' i 5000, Sleep 5000]) [1..<11]),
           Resolved) \<and>
   (\<forall>attempt. \<not> connect_resolves cassandra_down ''cassandra'' attempt) \<and>
   connect_method fresh_database = ConnectOriginal \<and>
   list_all (migrate_resolves cassandra_down) migrated_tables \<and>
   (\<exists>db'. connect cassandra_down fresh_database = Some (db', Resolved))"
proof -
  note t = retryConnect_never_rejects [of "''cassandra''" "\<lambda>attempt. False" 5000 10 "[]"
      "concat (map (\<lambda>i. [ConnectCall ''cassandra'' i, LoggerError ''cassandra'' i 5000, Sleep 5000]) [1..<11])"
      Resolved fresh_database cassandra_down]
  from t obtain k where k: "k \<le> 10" "\<not> k < 10"
    and run: "retryConnect ''cassandra'' (\<lambda>attempt. False) 5000 10 [] =
         Some ([] @ concat (map (\<lambda>i. [ConnectCall ''cassandra'' i, LoggerError ''cassandra'' i 5000, Sleep 5000]) [1..<Suc k]) @
                 (if k < 10 then [ConnectCall ''cassandra'' (Suc k), LoggerInit ''cassandra'' (Suc k)] else []), Resolved)"
    by blast
  have "k = 10" using k by simp
  then have r: "retryConnect ''cassandra'' (\<lambda>attempt. False) 5000 10 [] =
     Some (concat (map (\<lambda>i. [ConnectCall ''cassandra'' i, LoggerError ''cassandra'' i 5000, Sleep 5000]) [1..<11]),
           Resolved)"
    using run by simp
  have h: "connect_method fresh_database = ConnectOriginal \<and> list_all (migrate_resolves cassandra_down) migrated_tables"
    by (simp add: fresh_database_def cassandra_down_def migrated_tables_def)
  then have "\<exists>db'. connect cassandra_down fresh_database = Some (db', Resolved)"
    using t by blast
  then show ?thesis
    using r h by (simp add: cassandra_down_def)
qed

subsection \<open>Custom commands\<close>

lemma saveCommand_rejects:
  assumes "requestCommandContent context content = Some script"
    and "an_errors (check bbtag script) \<noteq> []"
  shows "saveCommand bbtag context operation commandName content currentCommand store =
           (store, Some (cross_mark @ '' There were errors with the bbtag you provided!'' @ newline @
                         stringifyAnalysis bbtag (check bbtag script)))"
  using assms by (simp add: saveCommand_def)

lemma saveCommand_saves:
  assumes "requestCommandContent context content = Some script"
    and "an_errors (check bbtag script) = []"
  shows "store_calls (fst (saveCommand bbtag context operation commandName content currentCommand store)) =
           store_calls store @
             [SetCommand (channel_guild_id context) commandName
                [(''content'', String script),
                 (''author'', String (author_id context)),
                 (''authorizer'', String (author_id context)),
                 (''hidden'', nullish (optional_prop currentCommand ''hidden'')
                                (Boolean (startsWith commandName ''_''))),
                 (''flags'', optional_prop currentCommand ''flags''),
                 (''cooldown'', optional_prop currentCommand ''cooldown''),
                 (''help'', optional_prop currentCommand ''help''),
                 (''lang'', optional_prop currentCommand ''lang''),
                 (''roles'', optional_prop currentCommand ''roles''),
                 (''uses'', optional_prop currentCommand ''uses'')]]"
  using assms by (simp add: saveCommand_def setCommand_def Let_def)

text \<open>
  C4. When the analysis of the script that \<open>saveCommand\<close> is about to save (the content given,
  or else the author's reply to the query) reports at least one error, \<open>saveCommand\<close> returns
  the error message followed by the analysis results, and the store is returned as it was:
  the stored commands are the same and no \<open>setCommand\<close> call is made.
\<close>

theorem saveCommand_errors_not_saved:
  assumes "requestCommandContent context content = Some script"
    and "an_errors (check bbtag script) \<noteq> []"
  shows "saveCommand bbtag context operation commandName content currentCommand store =
           (store, Some (cross_mark @ '' There were errors with the bbtag you provided!'' @ newline @
                         stringifyAnalysis bbtag (check bbtag script))) \<and>
         stored_commands (fst (saveCommand bbtag context operation commandName content currentCommand store)) =
           stored_commands store \<and>
         store_calls (fst (saveCommand bbtag context operation commandName content currentCommand store)) =
           store_calls store"
  using assms by (simp add: saveCommand_rejects)

text \<open>An edit of the command \<open>greet\<close> with the script \<open>{\<close>, for which the analyser reports an error.\<close>

theorem saveCommand_errors_not_saved_witness:
  "requestCommandContent example_command_context (Some ''{'') = Some ''{'' \<and>
   an_errors (check example_bbtag ''{'') = [''Unmatched brace''] \<and>
   saveCommand example_bbtag example_command_context ''edited'' ''greet'' (Some ''{'') (Some example_command)
       empty_store =
     (empty_store,
      Some (cross_mark @ '' There were errors with the bbtag you provided!'' @ newline @ ''Unmatched brace'')) \<and>
   store_calls (fst (saveCommand example_bbtag example_command_context ''edited'' ''greet'' (Some ''{'')
       (Some example_command) empty_store)) = []"
proof -
  have c: "requestCommandContent example_command_context (Some ''{'') = Some ''{''"
    by (simp add: requestCommandContent_def)
  have e: "an_errors (check example_bbtag ''{'') \<noteq> []"
    by (simp add: example_bbtag_def)
  show ?thesis
    using saveCommand_errors_not_saved [OF c e, of "''edited''" "''greet''" "Some example_command" empty_store]
    by (simp add: c example_bbtag_def empty_store_def)
qed

text \<open>
  C6, as stated, fails. The shrunk form of a stored command with a language and a use count
  carries both, under the properties \<open>lang\<close> and \<open>uses\<close>, which are not among script text, flags,
  cooldown, help text, role restrictions and the hidden and managed flags.
\<close>

theorem shrinkCommand_shape_counterexample:
  "get_prop (shrinkCommand example_command) ''lang'' = String ''js'' \<and>
   get_prop (shrinkCommand example_command) ''uses'' = Number 3 \<and>
   \<not> set (map fst (shrinkCommand example_command)) \<subseteq>
       {''content'', ''flags'', ''cooldown'', ''help'', ''roles'', ''hidden'', ''managed''}"
  by (simp add: shrinkCommand_def example_command_def get_prop_def)

text \<open>
  C6, amended. The shrunk command has exactly the nine properties content, cooldown, flags,
  help, hidden, lang, managed, roles and uses, each holding the value the stored command has
  for it, and never has the properties author, authorizer or name.
\<close>

theorem shrinkCommand_shape:
  "map fst (shrinkCommand command) =
     [''content'', ''cooldown'', ''flags'', ''help'', ''hidden'', ''lang'', ''managed'', ''roles'', ''uses''] \<and>
   (\<forall>key \<in> set (map fst (shrinkCommand command)).
      get_prop (shrinkCommand command) key = get_prop command key) \<and>
   ''author'' \<notin> set (map fst (shrinkCommand command)) \<and>
   ''authorizer'' \<notin> set (map fst (shrinkCommand command)) \<and>
   ''name'' \<notin> set (map fst (shrinkCommand command))"
  by (simp add: shrinkCommand_def get_prop_def)

text \<open>The stored command \<open>greet\<close>: its content and language are kept, its author is dropped.\<close>

theorem shrinkCommand_shape_witness:
  "''content'' \<in> set (map fst (shrinkCommand example_command)) \<and>
   get_prop (shrinkCommand example_command) ''content'' = String ''Hello {username}'' \<and>
   get_prop (shrinkCommand example_command) ''lang'' = String ''js'' \<and>
   get_prop (shrinkCommand example_command) ''help'' = Undefined \<and>
   get_prop (shrinkCommand example_command) ''author'' = Undefined \<and>
   ''author'' \<in> set (map fst example_command) \<and>
   ''author'' \<notin> set (map fst (shrinkCommand example_command))"
  using shrinkCommand_shape [of example_command]
  by (simp add: shrinkCommand_def example_command_def get_prop_def)

subsection \<open>ConcatBinding\<close>

lemma binder_loop_closed:
  "0 \<le> i \<Longrightarrow>
   binder_loop merge this state i =
     map (\<lambda>k. loop_candidate merge this state (int k))
       [nat i..<nat (int (length (flags_positional state)) - int (argIndex state) + 1)]"
proof (induction merge this state i rule: binder_loop.induct)
  case (1 merge this state i)
  define n where "n = nat (int (length (flags_positional state)) - int (argIndex state) + 1)"
  show ?case
  proof (cases "i \<le> int (length (flags_positional state)) - int (argIndex state)")
    case True
    have lt: "nat i < n"
      using True "1.prems" unfolding n_def by linarith
    have suc: "nat (i + 1) = Suc (nat i)"
      using "1.prems" by simp
    have upt: "[nat i..<n] = nat i # [Suc (nat i)..<n]"
      using lt by (rule upt_conv_Cons)
    have rest: "binder_loop merge this state (i + 1) =
        map (\<lambda>k. loop_candidate merge this state (int k)) [Suc (nat i)..<n]"
      using "1.IH" [OF True] "1.prems" unfolding n_def suc by simp
    have "binder_loop merge this state i =
        loop_candidate merge this state i # binder_loop merge this state (i + 1)"
      using True by (subst binder_loop.simps) simp
    then show ?thesis
      using "1.prems" unfolding n_def [symmetric] upt rest by simp
  next
    case False
    then have "n \<le> nat i"
      using "1.prems" unfolding n_def by linarith
    then have "[nat i..<n] = []" by simp
    moreover have "binder_loop merge this state i = []"
      using False by (subst binder_loop.simps) simp
    ultimately show ?thesis
      unfolding n_def by simp
  qed
qed

text \<open>
  C10. What the method yields. With no positional argument left: exactly one result, the
  binding of the parsed fallback, or the "Not enough arguments" error when there is no
  fallback. With \<open>N \<ge> 1\<close> arguments left: one candidate for each loop index from 0 to \<open>N\<close>, that
  is \<open>N + 1\<close> candidates and not \<open>N\<close>; the candidate of index \<open>i\<close> parses what \<open>merge\<close> returns for
  the range from \<open>argIndex\<close> to \<open>argIndex + i + 1\<close>, so the last one asks for a range that ends
  one past the last argument.
\<close>

theorem concat_bind_candidates:
  "(length (flags_positional state) = argIndex state \<longrightarrow>
      concat_bind merge this state =
        [case cb_fallback this of
           Some fallback \<Rightarrow> GetBindingResult state (cb_next this) 0 (cb_parse this fallback state)
         | None \<Rightarrow> BindingError state
                     (cross_mark @ '' Not enough arguments! `'' @ cb_name this @ ''` is required'')]) \<and>
   (argIndex state < length (flags_positional state) \<longrightarrow>
      concat_bind merge this state =
        map (\<lambda>k. loop_candidate merge this state (int k))
          [0..<length (flags_positional state) - argIndex state + 1] \<and>
      length (concat_bind merge this state) = length (flags_positional state) - argIndex state + 1)"
proof (intro conjI impI)
  assume "length (flags_positional state) = argIndex state"
  then show "concat_bind merge this state =
        [case cb_fallback this of
           Some fallback \<Rightarrow> GetBindingResult state (cb_next this) 0 (cb_parse this fallback state)
         | None \<Rightarrow> BindingError state
                     (cross_mark @ '' Not enough arguments! `'' @ cb_name this @ ''` is required'')]"
    by (simp add: concat_bind_def split: option.splits)
next
  assume lt: "argIndex state < length (flags_positional state)"
  then have n: "nat (int (length (flags_positional state)) - int (argIndex state) + 1) =
      length (flags_positional state) - argIndex state + 1"
    by simp
  show eq: "concat_bind merge this state =
        map (\<lambda>k. loop_candidate merge this state (int k))
          [0..<length (flags_positional state) - argIndex state + 1]"
    using lt binder_loop_closed [of 0 merge this state]
    by (simp add: concat_bind_def n del: upt_Suc)
  show "length (concat_bind merge this state) = length (flags_positional state) - argIndex state + 1"
    by (simp add: eq del: upt_Suc)
qed

text \<open>
  No argument left and no fallback: the one error. One argument left: two candidates, both
  parsing that argument.
\<close>

theorem concat_bind_candidates_witness:
  "length (flags_positional no_arguments) = argIndex no_arguments \<and>
   concat_bind slice_merge text_binding no_arguments =
     [BindingError no_arguments (cross_mark @ '' Not enough arguments! `text` is required'')] \<and>
   argIndex one_argument < length (flags_positional one_argument) \<and>
   length (flags_positional one_argument) - argIndex one_argument = 1 \<and>
   concat_bind slice_merge text_binding one_argument =
     [GetBindingResult one_argument () 0 ''hello'', GetBindingResult one_argument () 1 ''hello''] \<and>
   length (concat_bind slice_merge text_binding one_argument) = 2"
  using concat_bind_candidates [of one_argument slice_merge text_binding]
    concat_bind_candidates [of no_arguments slice_merge text_binding]
  by (simp add: one_argument_def no_arguments_def loop_candidate_def slice_merge_def text_binding_def)

end
